theory Spec2Isabelle
  imports Main
begin

section \<open>Python values, \<open>str()\<close> and \<open>json.dumps\<close>\<close>

text \<open>
  The constructors of \<^verbatim>\<open>hooks/lib/policies.py\<close> coerce their arguments with \<^verbatim>\<open>str()\<close>.
  The arguments range over the values the module's callers and tests pass: \<^verbatim>\<open>None\<close>,
  booleans, integers and strings (the documented type of every such argument is
  \<^verbatim>\<open>str\<close>). A Python string is a \<open>string\<close>, one \<open>char\<close> per character.
\<close>

datatype pyval = PNone | PBool bool | PInt int | PStr string

text \<open>The digit for \<open>d\<close>; it is only applied to \<open>d < 16\<close>.\<close>

definition digit_char :: "nat \<Rightarrow> char" where
  "digit_char d = ''0123456789abcdef'' ! d"

fun str_nat :: "nat \<Rightarrow> string" where
  "str_nat n = (if n < 10 then [digit_char n] else str_nat (n div 10) @ [digit_char (n mod 10)])"

declare str_nat.simps [simp del]

definition str_int :: "int \<Rightarrow> string" where
  "str_int i = (if i < 0 then CHR ''-'' # str_nat (nat (- i)) else str_nat (nat i))"

text \<open>\<^verbatim>\<open>str(x)\<close>, also what \<^verbatim>\<open>"{}".format(x)\<close> renders for these values.\<close>

fun py_str :: "pyval \<Rightarrow> string" where
  "py_str PNone = ''None''"
| "py_str (PBool b) = (if b then ''True'' else ''False'')"
| "py_str (PInt i) = str_int i"
| "py_str (PStr s) = s"

text \<open>
  The values \<^verbatim>\<open>json.dumps\<close> serialises: \<^verbatim>\<open>None\<close>, booleans, integers, strings, lists
  and dictionaries with string keys (an association list in insertion order). Floats
  are not modelled.
\<close>

datatype json = JNull | JBool bool | JInt int | JStr string
  | JList "json list" | JDict "(string \<times> json) list"

definition hex4 :: "nat \<Rightarrow> string" where
  "hex4 n = [digit_char (n div 4096 mod 16), digit_char (n div 256 mod 16),
             digit_char (n div 16 mod 16), digit_char (n mod 16)]"

text \<open>
  \<^verbatim>\<open>json.encoder.encode_basestring_ascii\<close> (the default \<^verbatim>\<open>ensure_ascii=True\<close>): backslash,
  the double quote and the five named control characters have short escapes, the
  characters from space to tilde stand for themselves, every other one is
  \<^verbatim>\<open>\uXXXX\<close> in lower-case hexadecimal.
\<close>

definition escape_char :: "char \<Rightarrow> string" where
  "escape_char c =
     (if c = CHR 0x5C then [CHR 0x5C, CHR 0x5C]
      else if c = CHR 0x22 then [CHR 0x5C, CHR 0x22]
      else if c = CHR 0x08 then [CHR 0x5C, CHR ''b'']
      else if c = CHR 0x0C then [CHR 0x5C, CHR ''f'']
      else if c = CHR 0x0A then [CHR 0x5C, CHR ''n'']
      else if c = CHR 0x0D then [CHR 0x5C, CHR ''r'']
      else if c = CHR 0x09 then [CHR 0x5C, CHR ''t'']
      else if 32 \<le> (of_char c :: nat) \<and> (of_char c :: nat) \<le> 126 then [c]
      else [CHR 0x5C, CHR ''u''] @ hex4 (of_char c))"

definition encode_basestring_ascii :: "string \<Rightarrow> string" where
  "encode_basestring_ascii s = CHR 0x22 # concat (map escape_char s) @ [CHR 0x22]"

fun join :: "string \<Rightarrow> string list \<Rightarrow> string" where
  "join sep [] = []"
| "join sep [x] = x"
| "join sep (x # y # ys) = x @ sep @ join sep (y # ys)"

text \<open>
  \<^verbatim>\<open>json.dumps(obj)\<close> with its default separators \<^verbatim>\<open>", "\<close> and \<^verbatim>\<open>": "\<close>.
\<close>

fun json_dumps :: "json \<Rightarrow> string"
  and dumps_list :: "json list \<Rightarrow> string list"
  and dumps_items :: "(string \<times> json) list \<Rightarrow> string list" where
  "json_dumps JNull = ''null''"
| "json_dumps (JBool b) = (if b then ''true'' else ''false'')"
| "json_dumps (JInt i) = str_int i"
| "json_dumps (JStr s) = encode_basestring_ascii s"
| "json_dumps (JList xs) = ''['' @ join '', '' (dumps_list xs) @ '']''"
| "json_dumps (JDict kvs) = ''{'' @ join '', '' (dumps_items kvs) @ ''}''"
| "dumps_list [] = []"
| "dumps_list (x # xs) = json_dumps x # dumps_list xs"
| "dumps_items [] = []"
| "dumps_items ((k, v) # kvs) =
     (encode_basestring_ascii k @ '': '' @ json_dumps v) # dumps_items kvs"

text \<open>\<^verbatim>\<open>d[k] = v\<close> on a dictionary: an existing key keeps its place, a new one goes last.\<close>

fun dict_setitem :: "(string \<times> json) list \<Rightarrow> string \<Rightarrow> json \<Rightarrow> (string \<times> json) list" where
  "dict_setitem [] k v = [(k, v)]"
| "dict_setitem ((k', v') # d) k v =
     (if k' = k then (k, v) # d else (k', v') # dict_setitem d k v)"

text \<open>\<^verbatim>\<open>d.get(k)\<close>: the value stored under a key, if any.\<close>

fun dict_get :: "(string \<times> json) list \<Rightarrow> string \<Rightarrow> json option" where
  "dict_get [] k = None"
| "dict_get ((k', v') # d) k = (if k' = k then Some v' else dict_get d k)"


section \<open>Exceptions, collaborators and their trace\<close>

text \<open>
  An exception is its class and, as the argument of the constructor, its \<^verbatim>\<open>str()\<close>
  rendering (what \<^verbatim>\<open>"{}".format(e)\<close> prints). \<open>ValueError\<close> stands for the
  class and its subclasses (\<^verbatim>\<open>UnicodeDecodeError\<close> is one), \<open>OtherException\<close> for every
  class that is neither \<^verbatim>\<open>CalledProcessError\<close> nor a \<^verbatim>\<open>ValueError\<close>.
\<close>

datatype exn = CalledProcessError string | ValueError string | OtherException string

type_synonym bytes = "char list"

text \<open>
  What the module imports and calls: \<^verbatim>\<open>subprocess.check_output\<close> (the captured output
  or an exception), \<^verbatim>\<open>bytes.decode("utf-8")\<close> (the text or an exception) and
  \<^verbatim>\<open>cmp_pkgrevno\<close> (a signed comparison). The theorems hold for every behaviour of the
  three.
\<close>

record env =
  check_output :: "string list \<Rightarrow> exn + bytes"
  decode :: "bytes \<Rightarrow> exn + string"
  cmp_pkgrevno :: "string \<Rightarrow> string \<Rightarrow> int"

datatype level = DEBUG | INFO | WARNING | ERROR

text \<open>
  The calls a method makes to its collaborators, in order: \<^verbatim>\<open>log(msg, level=l)\<close>,
  \<^verbatim>\<open>check_output(argv)\<close>, \<^verbatim>\<open>status_set(state, msg)\<close> and \<^verbatim>\<open>cmp_pkgrevno(pkg, ver)\<close>.
\<close>

datatype event =
    Log string level
  | CheckOutput "string list"
  | StatusSet string string
  | CmpPkgrevno string string

fun is_exec :: "event \<Rightarrow> bool" where
  "is_exec (CheckOutput argv) = True"
| "is_exec e = False"

fun is_status :: "event \<Rightarrow> bool" where
  "is_status (StatusSet st m) = True"
| "is_status e = False"

fun is_error_log :: "event \<Rightarrow> bool" where
  "is_error_log (Log m l) = (l = ERROR)"
| "is_error_log e = False"


section \<open>The policy classes\<close>

text \<open>
  The attributes every policy object has are the fields of the record; the attributes of
  its class are the arguments of its \<open>policy_kind\<close>: the stored \<^verbatim>\<open>definition\<close> of a
  \<^verbatim>\<open>BasePolicy\<close>; \<^verbatim>\<open>ttl\<close> and \<^verbatim>\<open>message_ttl\<close> of a \<^verbatim>\<open>TTLPolicy\<close>; \<^verbatim>\<open>params\<close>,
  \<^verbatim>\<open>_mode\<close> and \<^verbatim>\<open>_sync_mode\<close> of an \<^verbatim>\<open>HAPolicy\<close>.
\<close>

datatype policy_kind =
    BasePolicy string
  | TTLPolicy int bool
  | HAPolicy json string string

record policy =
  vhost :: string
  name :: string
  pattern :: string
  apply_to :: string
  priority :: string
  type :: string
  kind :: policy_kind

fun class_name :: "policy_kind \<Rightarrow> string" where
  "class_name (BasePolicy d) = ''BasePolicy''"
| "class_name (TTLPolicy t m) = ''TTLPolicy''"
| "class_name (HAPolicy ps m sm) = ''HAPolicy''"

definition ApplyToTypes :: "string list" where
  "ApplyToTypes = [''queues'', ''exchanges'', ''all'']"

definition ModeTypes :: "string list" where
  "ModeTypes = [''all'', ''exactly'', ''nodes'']"

definition SyncModeTypes :: "string list" where
  "SyncModeTypes = [''automatic'', ''manual'']"

text \<open>
  \<^verbatim>\<open>value in Enum.__members__\<close>: the keys are the member names, and only a string equals
  a string.
\<close>

fun in_members :: "pyval \<Rightarrow> string list \<Rightarrow> bool" where
  "in_members (PStr s) names = (s \<in> set names)"
| "in_members v names = False"

subsection \<open>Validated properties\<close>

definition apply_to_setter :: "policy \<Rightarrow> pyval \<Rightarrow> exn + policy" where
  "apply_to_setter self v =
     (if in_members v ApplyToTypes then Inr (self\<lparr>apply_to := py_str v\<rparr>)
      else Inl (ValueError (''Value '' @ py_str v @ '' not in ApplyToTypes.'')))"

text \<open>
  \<^verbatim>\<open>mode\<close> and \<^verbatim>\<open>sync_mode\<close> are properties of \<^verbatim>\<open>HAPolicy\<close> only; on an object of
  another class the assignment creates a plain attribute, which no method reads.
\<close>

definition mode_setter :: "policy \<Rightarrow> pyval \<Rightarrow> exn + policy" where
  "mode_setter self v =
     (case kind self of
        HAPolicy ps m sm \<Rightarrow>
          (if in_members v ModeTypes then Inr (self\<lparr>kind := HAPolicy ps (py_str v) sm\<rparr>)
           else Inl (ValueError (''Value '' @ py_str v @ '' not in ModeTypes.'')))
      | _ \<Rightarrow> Inr self)"

definition sync_mode_setter :: "policy \<Rightarrow> pyval \<Rightarrow> exn + policy" where
  "sync_mode_setter self v =
     (case kind self of
        HAPolicy ps m sm \<Rightarrow>
          (if in_members v SyncModeTypes then Inr (self\<lparr>kind := HAPolicy ps m (py_str v)\<rparr>)
           else Inl (ValueError (''Value '' @ py_str v @ '' not in SyncModeTypes.'')))
      | _ \<Rightarrow> Inr self)"

fun mode_getter :: "policy \<Rightarrow> string option" where
  "mode_getter self = (case kind self of HAPolicy ps m sm \<Rightarrow> Some m | _ \<Rightarrow> None)"

fun sync_mode_getter :: "policy \<Rightarrow> string option" where
  "sync_mode_getter self = (case kind self of HAPolicy ps m sm \<Rightarrow> Some sm | _ \<Rightarrow> None)"

subsection \<open>Constructors\<close>

text \<open>
  Each \<^verbatim>\<open>__init__\<close> assigns the attributes in the order of the source; the validated
  ones go through their setters, and the first that raises ends the construction. The
  record under construction starts with the attributes that are not yet assigned left
  empty. \<^verbatim>\<open>int(ttl)\<close> and \<^verbatim>\<open>bool(message_ttl)\<close> are the identity on the documented
  argument types \<^verbatim>\<open>int\<close> and \<^verbatim>\<open>bool\<close>, which are the types taken here.
\<close>

definition BasePolicy_init ::
  "pyval \<Rightarrow> pyval \<Rightarrow> pyval \<Rightarrow> pyval \<Rightarrow> pyval \<Rightarrow> pyval \<Rightarrow> pyval \<Rightarrow> exn + policy" where
  "BasePolicy_init vhost' name' pattern' definition' apply_to' priority' type' =
     (case apply_to_setter
             \<lparr>vhost = py_str vhost', name = py_str name', pattern = py_str pattern',
              apply_to = [], priority = [], type = [],
              kind = BasePolicy (py_str definition')\<rparr>
             (PStr (py_str apply_to')) of
        Inl e \<Rightarrow> Inl e
      | Inr self \<Rightarrow> Inr (self\<lparr>priority := py_str priority', type := py_str type'\<rparr>))"

definition TTLPolicy_init ::
  "pyval \<Rightarrow> pyval \<Rightarrow> pyval \<Rightarrow> pyval \<Rightarrow> pyval \<Rightarrow> pyval \<Rightarrow> int \<Rightarrow> bool \<Rightarrow> exn + policy" where
  "TTLPolicy_init vhost' name' pattern' apply_to' priority' type' ttl' message_ttl' =
     (case apply_to_setter
             \<lparr>vhost = py_str vhost', name = py_str name', pattern = py_str pattern',
              apply_to = [], priority = [], type = [],
              kind = TTLPolicy ttl' message_ttl'\<rparr>
             (PStr (py_str apply_to')) of
        Inl e \<Rightarrow> Inl e
      | Inr self \<Rightarrow> Inr (self\<lparr>priority := py_str priority', type := py_str type'\<rparr>))"

definition HAPolicy_init ::
  "pyval \<Rightarrow> pyval \<Rightarrow> pyval \<Rightarrow> pyval \<Rightarrow> pyval \<Rightarrow> json \<Rightarrow> pyval \<Rightarrow> pyval \<Rightarrow> pyval
     \<Rightarrow> exn + policy" where
  "HAPolicy_init vhost' name' pattern' apply_to' priority' params' type' mode' sync_mode' =
     (case apply_to_setter
             \<lparr>vhost = py_str vhost', name = py_str name', pattern = py_str pattern',
              apply_to = [], priority = [], type = [],
              kind = HAPolicy params' [] []\<rparr>
             (PStr (py_str apply_to')) of
        Inl e \<Rightarrow> Inl e
      | Inr self \<Rightarrow>
          (case mode_setter (self\<lparr>priority := py_str priority', type := py_str type'\<rparr>)
                  (PStr (py_str mode')) of
             Inl e \<Rightarrow> Inl e
           | Inr self' \<Rightarrow> sync_mode_setter self' (PStr (py_str sync_mode'))))"

subsection \<open>The \<^verbatim>\<open>definition\<close> attribute\<close>

definition TTLPolicy_definition :: "int \<Rightarrow> bool \<Rightarrow> string" where
  "TTLPolicy_definition ttl' message_ttl' =
     (if message_ttl' then json_dumps (JDict [(''message-ttl'', JInt ttl')])
      else json_dumps (JDict [(''experies'', JInt ttl')]))"

text \<open>The dictionary \<^verbatim>\<open>HAPolicy.definition\<close> builds before it serialises it.\<close>

definition HAPolicy_definition_dict :: "json \<Rightarrow> string \<Rightarrow> string \<Rightarrow> (string \<times> json) list" where
  "HAPolicy_definition_dict params' mode' sync_mode' =
     (let d = [(''ha-mode'', JStr mode'), (''ha-sync-mode'', JStr sync_mode')]
      in if mode' \<noteq> ''all'' then dict_setitem d ''ha-params'' params' else d)"

definition HAPolicy_definition :: "json \<Rightarrow> string \<Rightarrow> string \<Rightarrow> string" where
  "HAPolicy_definition params' mode' sync_mode' =
     json_dumps (JDict (HAPolicy_definition_dict params' mode' sync_mode'))"

text \<open>\<^verbatim>\<open>self.definition\<close>: the stored string of a \<^verbatim>\<open>BasePolicy\<close>, the property of the other two.\<close>

definition definition_of :: "policy \<Rightarrow> string" where
  "definition_of self =
     (case kind self of
        BasePolicy d \<Rightarrow> d
      | TTLPolicy t m \<Rightarrow> TTLPolicy_definition t m
      | HAPolicy ps m sm \<Rightarrow> HAPolicy_definition ps m sm)"

subsection \<open>Identity\<close>

definition key :: "policy \<Rightarrow> string \<times> string" where
  "key self = (vhost self, name self)"

text \<open>
  \<^verbatim>\<open>__hash__\<close> hashes the key; \<open>h\<close> is Python's \<^verbatim>\<open>hash\<close> on pairs of strings, whatever
  it computes in the running interpreter.
\<close>

definition policy_hash :: "(string \<times> string \<Rightarrow> int) \<Rightarrow> policy \<Rightarrow> int" where
  "policy_hash h self = h (key self)"

text \<open>\<^verbatim>\<open>__eq__\<close> between two policy objects (every policy is a \<^verbatim>\<open>BasePolicy\<close> instance).\<close>

definition policy_eq :: "policy \<Rightarrow> policy \<Rightarrow> bool" where
  "policy_eq self other = (key self = key other)"

subsection \<open>\<^verbatim>\<open>check\<close>, \<^verbatim>\<open>set\<close> and \<^verbatim>\<open>clear\<close>\<close>

text \<open>
  A method returns the calls it made and its outcome: \<open>Inl e\<close> when the exception \<open>e\<close>
  leaves the method, \<open>Inr None\<close> when it returns \<^verbatim>\<open>None\<close>, \<open>Inr (Some s)\<close> when it
  returns the text \<open>s\<close>.
\<close>

definition quoted :: "string \<Rightarrow> string" where
  "quoted s = CHR 0x27 # s @ [CHR 0x27]"

definition check :: "env \<Rightarrow> policy \<Rightarrow> event list \<times> bool" where
  "check w self =
     (case kind self of
        HAPolicy ps m sm \<Rightarrow>
          (if cmp_pkgrevno w ''rabbitmq-server'' ''3.0.0'' < 0
           then ([CmpPkgrevno ''rabbitmq-server'' ''3.0.0'',
                  Log (''Mirroring queues cannot be enabled, only supported ''
                        @ ''in rabbitmq-server >= 3.0'') WARNING,
                  Log (''More information at http://www.rabbitmq.com/blog/''
                        @ ''2012/11/19/breaking-things-with-rabbitmq-3-0'') INFO],
                 False)
           else ([CmpPkgrevno ''rabbitmq-server'' ''3.0.0''], True))
      | _ \<Rightarrow> ([], True))"

definition set_argv :: "policy \<Rightarrow> string list" where
  "set_argv self =
     [''rabbitmqctl'', ''set_policy'', ''-p'', vhost self, name self, pattern self,
      definition_of self, ''--apply-to'', apply_to self, ''--priority'', priority self]"

definition clear_argv :: "policy \<Rightarrow> string list" where
  "clear_argv self = [''rabbitmqctl'', ''clear_policy'', ''-p'', vhost self, name self]"

text \<open>
  \<^verbatim>\<open>check_output(argv).decode("utf-8")\<close>: the call is made, then its output decoded; an
  exception of either ends the expression.
\<close>

definition run :: "env \<Rightarrow> string list \<Rightarrow> exn + string" where
  "run w argv =
     (case check_output w argv of
        Inl e \<Rightarrow> Inl e
      | Inr out \<Rightarrow> decode w out)"

text \<open>\<^verbatim>\<open>BasePolicy.set\<close>; \<^verbatim>\<open>self.check()\<close> and \<^verbatim>\<open>self.definition\<close> are those of the object's class.\<close>

definition BasePolicy_set :: "env \<Rightarrow> policy \<Rightarrow> event list \<times> (exn + string option)" where
  "BasePolicy_set w self =
     (case check w self of
        (t, ok) \<Rightarrow>
          if ok then
            (let t1 = t @ [Log (''Setting policy '' @ class_name (kind self)
                                 @ '' to vhost: '' @ quoted (vhost self)
                                 @ '' with name: '' @ quoted (name self)) DEBUG,
                           CheckOutput (set_argv self)]
             in case run w (set_argv self) of
                  Inr result \<Rightarrow> (t1 @ [Log result INFO], Inr (Some result))
                | Inl (CalledProcessError m) \<Rightarrow>
                    (let msg = ''RabbitMQ failed to create policy '' @ name self
                     in (t1 @ [Log (m @ '', '' @ msg) ERROR, StatusSet ''blocked'' msg],
                         Inr None))
                | Inl (ValueError m) \<Rightarrow>
                    (let msg = ''RabbitMQ failed to create policy '' @ name self
                     in (t1 @ [Log (m @ '', '' @ msg) ERROR, StatusSet ''blocked'' msg],
                         Inr None))
                | Inl (OtherException m) \<Rightarrow> (t1, Inl (OtherException m)))
          else (t, Inr None))"

text \<open>
  The overrides of the two subclasses: \<^verbatim>\<open>super().set()\<close> is called and its value dropped,
  so the method returns \<^verbatim>\<open>None\<close> unless an exception leaves it.
\<close>

definition TTLPolicy_set :: "env \<Rightarrow> policy \<Rightarrow> event list \<times> (exn + string option)" where
  "TTLPolicy_set w self =
     (case BasePolicy_set w self of
        (t, Inl e) \<Rightarrow> (t, Inl e)
      | (t, Inr r) \<Rightarrow> (t, Inr None))"

definition HAPolicy_set :: "env \<Rightarrow> policy \<Rightarrow> event list \<times> (exn + string option)" where
  "HAPolicy_set w self =
     (case BasePolicy_set w self of
        (t, Inl e) \<Rightarrow> (t, Inl e)
      | (t, Inr r) \<Rightarrow> (t, Inr None))"

text \<open>\<^verbatim>\<open>policy.set()\<close>: the method of the object's class.\<close>

definition policy_set :: "env \<Rightarrow> policy \<Rightarrow> event list \<times> (exn + string option)" where
  "policy_set w self =
     (case kind self of
        BasePolicy d \<Rightarrow> BasePolicy_set w self
      | TTLPolicy t m \<Rightarrow> TTLPolicy_set w self
      | HAPolicy ps m sm \<Rightarrow> HAPolicy_set w self)"

text \<open>\<^verbatim>\<open>BasePolicy.clear\<close>, which no subclass overrides; it catches \<^verbatim>\<open>CalledProcessError\<close> only.\<close>

definition clear :: "env \<Rightarrow> policy \<Rightarrow> event list \<times> (exn + string option)" where
  "clear w self =
     (let t1 = [Log (''Clearing policy '' @ class_name (kind self)
                      @ '' to vhost: '' @ quoted (vhost self)
                      @ '' with name: '' @ quoted (name self)) DEBUG,
                CheckOutput (clear_argv self)]
      in case run w (clear_argv self) of
           Inr result \<Rightarrow> (t1 @ [Log result INFO], Inr (Some result))
         | Inl (CalledProcessError m) \<Rightarrow>
             (let msg = ''RabbitMQ failed to clear policy '' @ name self
              in (t1 @ [Log (m @ '', '' @ msg) ERROR, StatusSet ''blocked'' msg], Inr None))
         | Inl e \<Rightarrow> (t1, Inl e))"


section \<open>The objects and collaborators of the unit tests\<close>

text \<open>
  The mocked collaborators of \<^verbatim>\<open>unit_tests/test_policies.py\<close>: \<^verbatim>\<open>check_output\<close> answers
  every call with \<open>out\<close>, \<^verbatim>\<open>cmp_pkgrevno\<close> with \<open>c\<close>, and the output decodes to itself.
\<close>

definition test_env :: "(exn + bytes) \<Rightarrow> int \<Rightarrow> env" where
  "test_env out c =
     \<lparr>check_output = (\<lambda>argv. out), decode = (\<lambda>b. Inr b), cmp_pkgrevno = (\<lambda>pkg ver. c)\<rparr>"

text \<open>\<^verbatim>\<open>CalledProcessError(1, "cmd")\<close>, as the tests raise it.\<close>

definition command_failure :: exn where
  "command_failure = CalledProcessError ''Command 'cmd' returned non-zero exit status 1.''"

text \<open>
  \<^verbatim>\<open>BasePolicy("/", "HA", "foo", '{"ha-mode": "all", "ha-sync-mode": "automatic"}')\<close>,
  \<^verbatim>\<open>TTLPolicy("openstack", "TTL", "foo")\<close> and \<^verbatim>\<open>HAPolicy("/", "HA", "foo")\<close>.
\<close>

definition generic_policy :: policy where
  \<open>generic_policy = \<lparr>vhost = ''/'', name = ''HA'', pattern = ''foo'', apply_to = ''queues'',
     priority = ''1'', type = ''generic'',
     kind = BasePolicy ''{"ha-mode": "all", "ha-sync-mode": "automatic"}''\<rparr>\<close>

definition ttl_policy :: policy where
  "ttl_policy = \<lparr>vhost = ''openstack'', name = ''TTL'', pattern = ''foo'', apply_to = ''queues'',
     priority = ''1'', type = ''ttl'', kind = TTLPolicy 3600000 True\<rparr>"

definition ha_policy :: policy where
  "ha_policy = \<lparr>vhost = ''/'', name = ''HA'', pattern = ''foo'', apply_to = ''queues'',
     priority = ''1'', type = ''ha'', kind = HAPolicy JNull ''all'' ''automatic''\<rparr>"


section \<open>The computed definitions\<close>

lemma str_int_examples:
  "str_int 0 = ''0''" "str_int 3600 = ''3600''" "str_int (- 42) = ''-42''"
  by (simp_all add: str_int_def str_nat.simps digit_char_def)

lemma escape_char_examples:
  "escape_char CHR ''a'' = ''a''" "escape_char CHR 0x0A = [CHR 0x5C, CHR ''n'']"
  "escape_char CHR 0x7F = [CHR 0x5C, CHR ''u'', CHR ''0'', CHR ''0'', CHR ''7'', CHR ''f'']"
  by (simp_all add: escape_char_def hex4_def digit_char_def)

lemma enc_message_ttl: \<open>encode_basestring_ascii ''message-ttl'' = ''"message-ttl"''\<close>
  by (simp add: encode_basestring_ascii_def escape_char_def)

lemma enc_experies: \<open>encode_basestring_ascii ''experies'' = ''"experies"''\<close>
  by (simp add: encode_basestring_ascii_def escape_char_def)

lemma enc_ha_mode: \<open>encode_basestring_ascii ''ha-mode'' = ''"ha-mode"''\<close>
  by (simp add: encode_basestring_ascii_def escape_char_def)

lemma enc_ha_sync_mode: \<open>encode_basestring_ascii ''ha-sync-mode'' = ''"ha-sync-mode"''\<close>
  by (simp add: encode_basestring_ascii_def escape_char_def)

lemma enc_ha_params: \<open>encode_basestring_ascii ''ha-params'' = ''"ha-params"''\<close>
  by (simp add: encode_basestring_ascii_def escape_char_def)

text \<open>
  C3. The definition of a \<^verbatim>\<open>TTLPolicy\<close> with ttl \<open>X\<close> is the JSON serialisation of the
  one-entry object \<^verbatim>\<open>{"message-ttl": X}\<close> when \<^verbatim>\<open>message_ttl\<close> is true and of
  \<^verbatim>\<open>{"experies": X}\<close>, spelled so, when it is false; the text is given in full.
\<close>

theorem TTLPolicy_definition_json:
  \<open>definition_of (self\<lparr>kind := TTLPolicy X m\<rparr>) =
     json_dumps (JDict [(if m then ''message-ttl'' else ''experies'', JInt X)])
   \<and> definition_of (self\<lparr>kind := TTLPolicy X True\<rparr>) = ''{"message-ttl": '' @ str_int X @ ''}''
   \<and> definition_of (self\<lparr>kind := TTLPolicy X False\<rparr>) = ''{"experies": '' @ str_int X @ ''}''\<close>
  by (simp add: definition_of_def TTLPolicy_definition_def enc_message_ttl enc_experies)

text \<open>
  C7. The definition of an \<^verbatim>\<open>HAPolicy\<close> is the JSON serialisation of a dictionary that
  holds \<^verbatim>\<open>ha-mode\<close> with the mode and \<^verbatim>\<open>ha-sync-mode\<close> with the sync mode, and that
  holds \<^verbatim>\<open>ha-params\<close>, with the configured params, exactly when the mode is not
  \<^verbatim>\<open>all\<close>; the keys and the text are given in full.
\<close>

theorem HAPolicy_definition_json:
  \<open>definition_of (self\<lparr>kind := HAPolicy ps m sm\<rparr>)
     = json_dumps (JDict (HAPolicy_definition_dict ps m sm))
   \<and> dict_get (HAPolicy_definition_dict ps m sm) ''ha-mode'' = Some (JStr m)
   \<and> dict_get (HAPolicy_definition_dict ps m sm) ''ha-sync-mode'' = Some (JStr sm)
   \<and> dict_get (HAPolicy_definition_dict ps m sm) ''ha-params''
       = (if m = ''all'' then None else Some ps)
   \<and> map fst (HAPolicy_definition_dict ps m sm)
       = (if m = ''all'' then [''ha-mode'', ''ha-sync-mode'']
          else [''ha-mode'', ''ha-sync-mode'', ''ha-params''])
   \<and> definition_of (self\<lparr>kind := HAPolicy ps m sm\<rparr>)
       = ''{"ha-mode": '' @ encode_basestring_ascii m
           @ '', "ha-sync-mode": '' @ encode_basestring_ascii sm
           @ (if m = ''all'' then [] else '', "ha-params": '' @ json_dumps ps) @ ''}''\<close>
  by (simp add: definition_of_def HAPolicy_definition_def HAPolicy_definition_dict_def
        enc_ha_mode enc_ha_sync_mode enc_ha_params)

section \<open>Construction and identity\<close>

lemma init_generic:
  \<open>BasePolicy_init (PStr ''/'') (PStr ''HA'') (PStr ''foo'')
      (PStr ''{"ha-mode": "all", "ha-sync-mode": "automatic"}'')
      (PStr ''queues'') (PStr ''1'') (PStr ''generic'') = Inr generic_policy\<close>
  by (simp add: BasePolicy_init_def apply_to_setter_def ApplyToTypes_def generic_policy_def)

lemma init_ttl:
  "TTLPolicy_init (PStr ''openstack'') (PStr ''TTL'') (PStr ''foo'')
      (PStr ''queues'') (PStr ''1'') (PStr ''ttl'') 3600000 True = Inr ttl_policy"
  by (simp add: TTLPolicy_init_def apply_to_setter_def ApplyToTypes_def ttl_policy_def)

lemma init_ha:
  "HAPolicy_init (PStr ''/'') (PStr ''HA'') (PStr ''foo'')
      (PStr ''queues'') (PStr ''1'') JNull (PStr ''ha'') (PStr ''all'') (PStr ''automatic'')
    = Inr ha_policy"
  by (simp add: HAPolicy_init_def apply_to_setter_def mode_setter_def sync_mode_setter_def
        ApplyToTypes_def ModeTypes_def SyncModeTypes_def ha_policy_def)

text \<open>
  C4. Two policies, of whatever classes, are equal exactly when their vhost and name
  are equal, and then they have the same hash; the pattern, scope, priority, type and
  the attributes of the class take no part in either.
\<close>

theorem policy_eq_iff_key:
  "(policy_eq p q \<longleftrightarrow> (vhost p, name p) = (vhost q, name q))
   \<and> ((vhost p, name p) = (vhost q, name q) \<longrightarrow> policy_hash h p = policy_hash h q)
   \<and> policy_eq (p\<lparr>pattern := pa, apply_to := a, priority := pr, type := ty, kind := k\<rparr>) p
   \<and> policy_hash h (p\<lparr>pattern := pa, apply_to := a, priority := pr, type := ty, kind := k\<rparr>)
       = policy_hash h p"
  by (simp add: policy_eq_def policy_hash_def key_def)

theorem policy_eq_iff_key_witness:
  "policy_eq generic_policy ha_policy
   \<and> policy_hash (\<lambda>(a, b). int (length a + length b)) generic_policy
       = policy_hash (\<lambda>(a, b). int (length a + length b)) ha_policy
   \<and> \<not> policy_eq generic_policy ttl_policy"
  using policy_eq_iff_key [of generic_policy ha_policy "\<lambda>(a, b). int (length a + length b)"]
    policy_eq_iff_key [of generic_policy ttl_policy]
  by (simp add: generic_policy_def ha_policy_def ttl_policy_def)

section \<open>The calls and the value of \<^verbatim>\<open>set\<close>\<close>

lemma set_trace_same:
  "fst (TTLPolicy_set w p) = fst (BasePolicy_set w p)"
  "fst (HAPolicy_set w p) = fst (BasePolicy_set w p)"
  by (simp_all add: TTLPolicy_set_def HAPolicy_set_def split: prod.splits sum.splits)

lemma policy_set_trace: "fst (policy_set w p) = fst (BasePolicy_set w p)"
  by (simp add: policy_set_def set_trace_same split: policy_kind.splits)

lemma policy_set_result:
  "snd (policy_set w p) =
     (case kind p of
        BasePolicy d \<Rightarrow> snd (BasePolicy_set w p)
      | _ \<Rightarrow> (case snd (BasePolicy_set w p) of Inl e \<Rightarrow> Inl e | Inr r \<Rightarrow> Inr None))"
  by (simp add: policy_set_def TTLPolicy_set_def HAPolicy_set_def
      split: policy_kind.splits prod.splits sum.splits)

lemma BasePolicy_set_unchecked:
  "\<not> snd (check w p) \<Longrightarrow> BasePolicy_set w p = (fst (check w p), Inr None)"
  by (cases "check w p") (simp add: BasePolicy_set_def)

lemma BasePolicy_set_failed:
  "snd (check w p) \<Longrightarrow> check_output w (set_argv p) = Inl (CalledProcessError m) \<Longrightarrow>
   BasePolicy_set w p =
     (fst (check w p)
        @ [Log (''Setting policy '' @ class_name (kind p) @ '' to vhost: '' @ quoted (vhost p)
                 @ '' with name: '' @ quoted (name p)) DEBUG,
           CheckOutput (set_argv p),
           Log (m @ '', '' @ ''RabbitMQ failed to create policy '' @ name p) ERROR,
           StatusSet ''blocked'' (''RabbitMQ failed to create policy '' @ name p)],
      Inr None)"
  by (cases "check w p") (simp add: BasePolicy_set_def run_def Let_def)

lemma BasePolicy_set_ok:
  "snd (check w p) \<Longrightarrow> check_output w (set_argv p) = Inr out \<Longrightarrow> decode w out = Inr result \<Longrightarrow>
   BasePolicy_set w p =
     (fst (check w p)
        @ [Log (''Setting policy '' @ class_name (kind p) @ '' to vhost: '' @ quoted (vhost p)
                 @ '' with name: '' @ quoted (name p)) DEBUG,
           CheckOutput (set_argv p),
           Log result INFO],
      Inr (Some result))"
  by (cases "check w p") (simp add: BasePolicy_set_def run_def Let_def)

lemma check_trace_quiet:
  "filter is_exec (fst (check w p)) = []"
  "filter is_status (fst (check w p)) = []"
  "filter is_error_log (fst (check w p)) = []"
  by (simp_all add: check_def split: policy_kind.splits)

lemma BasePolicy_set_execs:
  "filter is_exec (fst (BasePolicy_set w p)) = (if snd (check w p) then [CheckOutput (set_argv p)] else [])"
proof (cases "check w p")
  case (Pair t ok)
  have "filter is_exec t = []" using check_trace_quiet(1) [of w p] Pair by simp
  with Pair show ?thesis
    by (simp add: BasePolicy_set_def Let_def split: sum.splits exn.splits)
qed

section \<open>Validated enumerations\<close>

lemma apply_to_setter_cases:
  "apply_to_setter p v =
     (if v \<in> {PStr ''queues'', PStr ''exchanges'', PStr ''all''}
      then Inr (p\<lparr>apply_to := py_str v\<rparr>)
      else Inl (ValueError (''Value '' @ py_str v @ '' not in ApplyToTypes.'')))"
  by (cases v) (auto simp: apply_to_setter_def ApplyToTypes_def)

lemma mode_setter_cases:
  "mode_setter (p\<lparr>kind := HAPolicy ps m sm\<rparr>) v =
     (if v \<in> {PStr ''all'', PStr ''exactly'', PStr ''nodes''}
      then Inr (p\<lparr>kind := HAPolicy ps (py_str v) sm\<rparr>)
      else Inl (ValueError (''Value '' @ py_str v @ '' not in ModeTypes.'')))"
  by (cases v) (auto simp: mode_setter_def ModeTypes_def)

lemma sync_mode_setter_cases:
  "sync_mode_setter (p\<lparr>kind := HAPolicy ps m sm\<rparr>) v =
     (if v \<in> {PStr ''automatic'', PStr ''manual''}
      then Inr (p\<lparr>kind := HAPolicy ps m (py_str v)\<rparr>)
      else Inl (ValueError (''Value '' @ py_str v @ '' not in SyncModeTypes.'')))"
  by (cases v) (auto simp: sync_mode_setter_def SyncModeTypes_def)

lemma BasePolicy_init_cases:
  "BasePolicy_init vh n pa d a pr ty =
     (if py_str a \<in> {''queues'', ''exchanges'', ''all''}
      then Inr \<lparr>vhost = py_str vh, name = py_str n, pattern = py_str pa, apply_to = py_str a,
                priority = py_str pr, type = py_str ty, kind = BasePolicy (py_str d)\<rparr>
      else Inl (ValueError (''Value '' @ py_str a @ '' not in ApplyToTypes.'')))"
  by (auto simp: BasePolicy_init_def apply_to_setter_cases)

lemma TTLPolicy_init_cases:
  "TTLPolicy_init vh n pa a pr ty t mt =
     (if py_str a \<in> {''queues'', ''exchanges'', ''all''}
      then Inr \<lparr>vhost = py_str vh, name = py_str n, pattern = py_str pa, apply_to = py_str a,
                priority = py_str pr, type = py_str ty, kind = TTLPolicy t mt\<rparr>
      else Inl (ValueError (''Value '' @ py_str a @ '' not in ApplyToTypes.'')))"
  by (auto simp: TTLPolicy_init_def apply_to_setter_cases)

lemma HAPolicy_init_cases:
  "HAPolicy_init vh n pa a pr ps ty mo sy =
     (if py_str a \<notin> {''queues'', ''exchanges'', ''all''}
      then Inl (ValueError (''Value '' @ py_str a @ '' not in ApplyToTypes.''))
      else if py_str mo \<notin> {''all'', ''exactly'', ''nodes''}
      then Inl (ValueError (''Value '' @ py_str mo @ '' not in ModeTypes.''))
      else if py_str sy \<notin> {''automatic'', ''manual''}
      then Inl (ValueError (''Value '' @ py_str sy @ '' not in SyncModeTypes.''))
      else Inr \<lparr>vhost = py_str vh, name = py_str n, pattern = py_str pa, apply_to = py_str a,
                priority = py_str pr, type = py_str ty,
                kind = HAPolicy ps (py_str mo) (py_str sy)\<rparr>)"
  by (auto simp: HAPolicy_init_def apply_to_setter_def mode_setter_def sync_mode_setter_def
        ApplyToTypes_def ModeTypes_def SyncModeTypes_def)

text \<open>
  C5. Assigning a value to \<^verbatim>\<open>apply_to\<close> of any policy, or to \<^verbatim>\<open>mode\<close> or \<^verbatim>\<open>sync_mode\<close>
  of an \<^verbatim>\<open>HAPolicy\<close>, raises \<^verbatim>\<open>ValueError\<close> when the value is not a member of the
  enumeration, and otherwise succeeds, after which the attribute reads as that value.
  The constructors assign the \<^verbatim>\<open>str()\<close> of their arguments the same way: each raises
  \<^verbatim>\<open>ValueError\<close> at the first argument that is no member, and returns the object with
  the values stored when all are members.
\<close>

theorem enum_assignment_validated:
  "(v \<in> {PStr ''queues'', PStr ''exchanges'', PStr ''all''} \<longrightarrow>
      (\<exists>p'. apply_to_setter p v = Inr p' \<and> PStr (apply_to p') = v))
   \<and> (v \<notin> {PStr ''queues'', PStr ''exchanges'', PStr ''all''} \<longrightarrow>
      apply_to_setter p v = Inl (ValueError (''Value '' @ py_str v @ '' not in ApplyToTypes.'')))
   \<and> (v \<in> {PStr ''all'', PStr ''exactly'', PStr ''nodes''} \<longrightarrow>
      (\<exists>p'. mode_setter (p\<lparr>kind := HAPolicy ps m sm\<rparr>) v = Inr p'
            \<and> map_option PStr (mode_getter p') = Some v))
   \<and> (v \<notin> {PStr ''all'', PStr ''exactly'', PStr ''nodes''} \<longrightarrow>
      mode_setter (p\<lparr>kind := HAPolicy ps m sm\<rparr>) v
        = Inl (ValueError (''Value '' @ py_str v @ '' not in ModeTypes.'')))
   \<and> (v \<in> {PStr ''automatic'', PStr ''manual''} \<longrightarrow>
      (\<exists>p'. sync_mode_setter (p\<lparr>kind := HAPolicy ps m sm\<rparr>) v = Inr p'
            \<and> map_option PStr (sync_mode_getter p') = Some v))
   \<and> (v \<notin> {PStr ''automatic'', PStr ''manual''} \<longrightarrow>
      sync_mode_setter (p\<lparr>kind := HAPolicy ps m sm\<rparr>) v
        = Inl (ValueError (''Value '' @ py_str v @ '' not in SyncModeTypes.'')))
   \<and> (py_str a \<in> {''queues'', ''exchanges'', ''all''} \<longrightarrow>
      (\<exists>p'. BasePolicy_init vh n pa d a pr ty = Inr p' \<and> apply_to p' = py_str a)
      \<and> (\<exists>p'. TTLPolicy_init vh n pa a pr ty t mt = Inr p' \<and> apply_to p' = py_str a))
   \<and> (py_str a \<notin> {''queues'', ''exchanges'', ''all''} \<longrightarrow>
      BasePolicy_init vh n pa d a pr ty
        = Inl (ValueError (''Value '' @ py_str a @ '' not in ApplyToTypes.''))
      \<and> TTLPolicy_init vh n pa a pr ty t mt
        = Inl (ValueError (''Value '' @ py_str a @ '' not in ApplyToTypes.''))
      \<and> HAPolicy_init vh n pa a pr ps ty mo sy
        = Inl (ValueError (''Value '' @ py_str a @ '' not in ApplyToTypes.'')))
   \<and> (py_str a \<in> {''queues'', ''exchanges'', ''all''}
        \<and> py_str mo \<in> {''all'', ''exactly'', ''nodes''}
        \<and> py_str sy \<in> {''automatic'', ''manual''} \<longrightarrow>
      (\<exists>p'. HAPolicy_init vh n pa a pr ps ty mo sy = Inr p' \<and> apply_to p' = py_str a
            \<and> mode_getter p' = Some (py_str mo) \<and> sync_mode_getter p' = Some (py_str sy)))
   \<and> (py_str a \<in> {''queues'', ''exchanges'', ''all''}
        \<and> py_str mo \<notin> {''all'', ''exactly'', ''nodes''} \<longrightarrow>
      HAPolicy_init vh n pa a pr ps ty mo sy
        = Inl (ValueError (''Value '' @ py_str mo @ '' not in ModeTypes.'')))
   \<and> (py_str a \<in> {''queues'', ''exchanges'', ''all''}
        \<and> py_str mo \<in> {''all'', ''exactly'', ''nodes''}
        \<and> py_str sy \<notin> {''automatic'', ''manual''} \<longrightarrow>
      HAPolicy_init vh n pa a pr ps ty mo sy
        = Inl (ValueError (''Value '' @ py_str sy @ '' not in SyncModeTypes.'')))"
proof -
  have setters:
    "v \<in> {PStr ''queues'', PStr ''exchanges'', PStr ''all''} \<Longrightarrow> PStr (py_str v) = v"
    "v \<in> {PStr ''all'', PStr ''exactly'', PStr ''nodes''} \<Longrightarrow> PStr (py_str v) = v"
    "v \<in> {PStr ''automatic'', PStr ''manual''} \<Longrightarrow> PStr (py_str v) = v"
    by auto
  show ?thesis
    unfolding apply_to_setter_cases mode_setter_cases sync_mode_setter_cases
      BasePolicy_init_cases TTLPolicy_init_cases HAPolicy_init_cases
    using setters by simp
qed

theorem enum_assignment_validated_witness:
  "apply_to_setter ttl_policy (PStr ''bar'')
     = Inl (ValueError ''Value bar not in ApplyToTypes.'')
   \<and> (\<exists>p'. apply_to_setter ttl_policy (PStr ''all'') = Inr p' \<and> apply_to p' = ''all'')
   \<and> mode_setter ha_policy (PStr ''bar'') = Inl (ValueError ''Value bar not in ModeTypes.'')
   \<and> (\<exists>p'. mode_setter ha_policy (PStr ''nodes'') = Inr p' \<and> mode_getter p' = Some ''nodes'')
   \<and> sync_mode_setter ha_policy (PStr ''foo'')
       = Inl (ValueError ''Value foo not in SyncModeTypes.'')
   \<and> (\<exists>p'. sync_mode_setter ha_policy (PStr ''manual'') = Inr p'
          \<and> sync_mode_getter p' = Some ''manual'')
   \<and> TTLPolicy_init (PStr ''openstack'') (PStr ''TTL'') (PStr ''foo'') (PStr ''bar'')
        (PStr ''1'') (PStr ''ttl'') 3600000 True
       = Inl (ValueError ''Value bar not in ApplyToTypes.'')"
proof -
  have ha: "ha_policy\<lparr>kind := HAPolicy JNull ''all'' ''automatic''\<rparr> = ha_policy"
    by (simp add: ha_policy_def)
  note a = enum_assignment_validated [where v = "PStr ''bar''" and p = ttl_policy
      and a = "PStr ''bar''" and vh = "PStr ''openstack''" and n = "PStr ''TTL''"
      and pa = "PStr ''foo''" and pr = "PStr ''1''" and ty = "PStr ''ttl''"
      and t = 3600000 and mt = True]
  note b = enum_assignment_validated [where v = "PStr ''all''" and p = ttl_policy]
  note c = enum_assignment_validated [where v = "PStr ''bar''" and p = ha_policy
      and ps = JNull and m = "''all''" and sm = "''automatic''"]
  note d = enum_assignment_validated [where v = "PStr ''nodes''" and p = ha_policy
      and ps = JNull and m = "''all''" and sm = "''automatic''"]
  note e = enum_assignment_validated [where v = "PStr ''foo''" and p = ha_policy
      and ps = JNull and m = "''all''" and sm = "''automatic''"]
  note f = enum_assignment_validated [where v = "PStr ''manual''" and p = ha_policy
      and ps = JNull and m = "''all''" and sm = "''automatic''"]
  show ?thesis
    using a b c d e f by (simp add: ha)
qed

section \<open>The version gate\<close>

lemma ha_policy_definition:
  \<open>definition_of ha_policy = ''{"ha-mode": "all", "ha-sync-mode": "automatic"}''\<close>
  by (simp add: definition_of_def ha_policy_def HAPolicy_definition_def HAPolicy_definition_dict_def
      encode_basestring_ascii_def escape_char_def)

lemma ttl_policy_definition:
  \<open>definition_of ttl_policy = ''{"message-ttl": 3600000}''\<close>
  by (simp add: definition_of_def ttl_policy_def TTLPolicy_definition_def enc_message_ttl str_int_def
      str_nat.simps digit_char_def)

lemma check_HAPolicy:
  "snd (check w (p\<lparr>kind := HAPolicy ps m sm\<rparr>))
     = (\<not> cmp_pkgrevno w ''rabbitmq-server'' ''3.0.0'' < 0)"
  by (simp add: check_def)

lemma check_not_HAPolicy:
  "snd (check w (p\<lparr>kind := BasePolicy d\<rparr>))" "snd (check w (p\<lparr>kind := TTLPolicy t mt\<rparr>))"
  by (simp_all add: check_def)

lemma policy_set_unchecked:
  assumes "\<not> snd (check w p)"
  shows "filter is_exec (fst (policy_set w p)) = []" and "snd (policy_set w p) = Inr None"
  using assms
  by (simp_all add: policy_set_trace policy_set_result BasePolicy_set_unchecked check_trace_quiet
      split: policy_kind.splits)

lemma set_argv_HAPolicy:
  "set_argv (p\<lparr>kind := HAPolicy ps m sm\<rparr>) =
     [''rabbitmqctl'', ''set_policy'', ''-p'', vhost p, name p, pattern p,
      HAPolicy_definition ps m sm, ''--apply-to'', apply_to p, ''--priority'', priority p]"
  by (simp add: set_argv_def definition_of_def)

text \<open>
  C6. On an \<^verbatim>\<open>HAPolicy\<close>, when \<^verbatim>\<open>cmp_pkgrevno("rabbitmq-server", "3.0.0")\<close> is negative,
  \<^verbatim>\<open>check()\<close> is false, \<^verbatim>\<open>set()\<close> never calls \<^verbatim>\<open>check_output\<close> and returns \<^verbatim>\<open>None\<close>; when
  it is zero or positive, \<^verbatim>\<open>check()\<close> is true and \<^verbatim>\<open>set()\<close> calls \<^verbatim>\<open>check_output\<close> once,
  with the \<^verbatim>\<open>set_policy\<close> command.
\<close>

theorem HAPolicy_version_gate:
  "(cmp_pkgrevno w ''rabbitmq-server'' ''3.0.0'' < 0 \<longrightarrow>
      snd (check w (p\<lparr>kind := HAPolicy ps m sm\<rparr>)) = False
      \<and> filter is_exec (fst (policy_set w (p\<lparr>kind := HAPolicy ps m sm\<rparr>))) = []
      \<and> snd (policy_set w (p\<lparr>kind := HAPolicy ps m sm\<rparr>)) = Inr None)
   \<and> (0 \<le> cmp_pkgrevno w ''rabbitmq-server'' ''3.0.0'' \<longrightarrow>
      snd (check w (p\<lparr>kind := HAPolicy ps m sm\<rparr>)) = True
      \<and> filter is_exec (fst (policy_set w (p\<lparr>kind := HAPolicy ps m sm\<rparr>)))
          = [CheckOutput [''rabbitmqctl'', ''set_policy'', ''-p'', vhost p, name p, pattern p,
               definition_of (p\<lparr>kind := HAPolicy ps m sm\<rparr>), ''--apply-to'', apply_to p,
               ''--priority'', priority p]])"
proof (intro conjI impI)
  assume old: "cmp_pkgrevno w ''rabbitmq-server'' ''3.0.0'' < 0"
  then have no: "\<not> snd (check w (p\<lparr>kind := HAPolicy ps m sm\<rparr>))"
    by (simp add: check_HAPolicy)
  then show "snd (check w (p\<lparr>kind := HAPolicy ps m sm\<rparr>)) = False" by simp
  from no show "filter is_exec (fst (policy_set w (p\<lparr>kind := HAPolicy ps m sm\<rparr>))) = []"
    by (rule policy_set_unchecked(1))
  from no show "snd (policy_set w (p\<lparr>kind := HAPolicy ps m sm\<rparr>)) = Inr None"
    by (rule policy_set_unchecked(2))
next
  assume new: "0 \<le> cmp_pkgrevno w ''rabbitmq-server'' ''3.0.0''"
  then have yes: "snd (check w (p\<lparr>kind := HAPolicy ps m sm\<rparr>))"
    by (simp add: check_HAPolicy)
  then show "snd (check w (p\<lparr>kind := HAPolicy ps m sm\<rparr>)) = True" by simp
  from yes show "filter is_exec (fst (policy_set w (p\<lparr>kind := HAPolicy ps m sm\<rparr>)))
          = [CheckOutput [''rabbitmqctl'', ''set_policy'', ''-p'', vhost p, name p, pattern p,
               definition_of (p\<lparr>kind := HAPolicy ps m sm\<rparr>), ''--apply-to'', apply_to p,
               ''--priority'', priority p]]"
    by (simp add: policy_set_trace BasePolicy_set_execs set_argv_def)
qed

theorem HAPolicy_version_gate_witness:
  \<open>snd (check (test_env (Inr ''ok'') (- 1)) ha_policy) = False
   \<and> filter is_exec (fst (policy_set (test_env (Inr ''ok'') (- 1)) ha_policy)) = []
   \<and> snd (policy_set (test_env (Inr ''ok'') (- 1)) ha_policy) = Inr None
   \<and> snd (check (test_env (Inr ''ok'') 1) ha_policy) = True
   \<and> filter is_exec (fst (policy_set (test_env (Inr ''ok'') 1) ha_policy))
       = [CheckOutput [''rabbitmqctl'', ''set_policy'', ''-p'', ''/'', ''HA'', ''foo'',
            ''{"ha-mode": "all", "ha-sync-mode": "automatic"}'', ''--apply-to'', ''queues'',
            ''--priority'', ''1'']]\<close>
proof -
  have ha: "ha_policy\<lparr>kind := HAPolicy JNull ''all'' ''automatic''\<rparr> = ha_policy"
    by (simp add: ha_policy_def)
  have fields: "vhost ha_policy = ''/''" "name ha_policy = ''HA''" "pattern ha_policy = ''foo''"
    "apply_to ha_policy = ''queues''" "priority ha_policy = ''1''"
    by (simp_all add: ha_policy_def)
  have old: "cmp_pkgrevno (test_env (Inr ''ok'') (- 1)) ''rabbitmq-server'' ''3.0.0'' < 0"
    and new: "0 \<le> cmp_pkgrevno (test_env (Inr ''ok'') 1) ''rabbitmq-server'' ''3.0.0''"
    by (simp_all add: test_env_def)
  from old new
    HAPolicy_version_gate [where w = "test_env (Inr ''ok'') (- 1)" and p = ha_policy
      and ps = JNull and m = "''all''" and sm = "''automatic''"]
    HAPolicy_version_gate [where w = "test_env (Inr ''ok'') 1" and p = ha_policy
      and ps = JNull and m = "''all''" and sm = "''automatic''"]
  show ?thesis
    by (simp add: ha fields ha_policy_definition)
qed

section \<open>Applying and clearing\<close>

lemma policy_set_success:
  assumes "snd (check w p)" and "check_output w (set_argv p) = Inr out"
    and "decode w out = Inr result"
  shows "filter is_exec (fst (policy_set w p)) = [CheckOutput (set_argv p)]"
    and "filter is_status (fst (policy_set w p)) = []"
    and "snd (policy_set w p)
           = (case kind p of BasePolicy d \<Rightarrow> Inr (Some result) | _ \<Rightarrow> Inr None)"
  by (simp_all add: policy_set_trace policy_set_result BasePolicy_set_ok [OF assms]
      check_trace_quiet split: policy_kind.splits)

text \<open>
  C8. When \<^verbatim>\<open>check()\<close> is true and \<^verbatim>\<open>check_output\<close> raises \<^verbatim>\<open>CalledProcessError\<close>,
  \<^verbatim>\<open>set()\<close> of any policy returns \<^verbatim>\<open>None\<close> (no exception leaves it), logs one entry at
  level \<^verbatim>\<open>ERROR\<close>, and calls \<^verbatim>\<open>status_set\<close> once, with \<^verbatim>\<open>blocked\<close> and the message
  \<^verbatim>\<open>RabbitMQ failed to create policy <name>\<close>.
\<close>

theorem set_command_failure_absorbed:
  "snd (check w p) \<Longrightarrow>
   check_output w [''rabbitmqctl'', ''set_policy'', ''-p'', vhost p, name p, pattern p,
      definition_of p, ''--apply-to'', apply_to p, ''--priority'', priority p]
     = Inl (CalledProcessError m) \<Longrightarrow>
   snd (policy_set w p) = Inr None
   \<and> filter is_error_log (fst (policy_set w p))
       = [Log (m @ '', RabbitMQ failed to create policy '' @ name p) ERROR]
   \<and> filter is_status (fst (policy_set w p))
       = [StatusSet ''blocked'' (''RabbitMQ failed to create policy '' @ name p)]"
proof -
  assume ok: "snd (check w p)"
    and fails: "check_output w [''rabbitmqctl'', ''set_policy'', ''-p'', vhost p, name p,
      pattern p, definition_of p, ''--apply-to'', apply_to p, ''--priority'', priority p]
     = Inl (CalledProcessError m)"
  from fails have "check_output w (set_argv p) = Inl (CalledProcessError m)"
    by (simp add: set_argv_def)
  note run = BasePolicy_set_failed [OF ok this]
  show ?thesis
    by (simp add: policy_set_trace policy_set_result run check_trace_quiet
        split: policy_kind.splits)
qed

theorem set_command_failure_absorbed_witness:
  "snd (policy_set (test_env (Inl command_failure) 1) generic_policy) = Inr None
   \<and> filter is_error_log (fst (policy_set (test_env (Inl command_failure) 1) generic_policy))
       = [Log (''Command 'cmd' returned non-zero exit status 1.''
                @ '', RabbitMQ failed to create policy HA'') ERROR]
   \<and> filter is_status (fst (policy_set (test_env (Inl command_failure) 1) generic_policy))
       = [StatusSet ''blocked'' ''RabbitMQ failed to create policy HA'']"
proof -
  have ok: "snd (check (test_env (Inl command_failure) 1) generic_policy)"
    by (simp add: check_def generic_policy_def)
  have fails: "check_output (test_env (Inl command_failure) 1)
      [''rabbitmqctl'', ''set_policy'', ''-p'', vhost generic_policy, name generic_policy,
       pattern generic_policy, definition_of generic_policy, ''--apply-to'',
       apply_to generic_policy, ''--priority'', priority generic_policy]
     = Inl (CalledProcessError ''Command 'cmd' returned non-zero exit status 1.'')"
    by (simp add: test_env_def command_failure_def)
  have "name generic_policy = ''HA''"
    by (simp add: generic_policy_def)
  with set_command_failure_absorbed [OF ok fails] show ?thesis
    by simp
qed

text \<open>
  C9. \<^verbatim>\<open>clear()\<close> of any policy calls \<^verbatim>\<open>check_output\<close> once, with
  \<^verbatim>\<open>["rabbitmqctl", "clear_policy", "-p", vhost, name]\<close>. When the call succeeds it returns
  the decoded output and \<^verbatim>\<open>status_set\<close> is not called; when the call raises
  \<^verbatim>\<open>CalledProcessError\<close> it returns \<^verbatim>\<open>None\<close>, logs the error and calls \<^verbatim>\<open>status_set\<close> once,
  with \<^verbatim>\<open>blocked\<close> and \<^verbatim>\<open>RabbitMQ failed to clear policy <name>\<close>.
\<close>

theorem clear_issues_command:
  "filter is_exec (fst (clear w p))
     = [CheckOutput [''rabbitmqctl'', ''clear_policy'', ''-p'', vhost p, name p]]
   \<and> (check_output w [''rabbitmqctl'', ''clear_policy'', ''-p'', vhost p, name p] = Inr out
        \<and> decode w out = Inr result \<longrightarrow>
      snd (clear w p) = Inr (Some result)
      \<and> filter is_status (fst (clear w p)) = []
      \<and> filter is_error_log (fst (clear w p)) = [])
   \<and> (check_output w [''rabbitmqctl'', ''clear_policy'', ''-p'', vhost p, name p]
        = Inl (CalledProcessError m) \<longrightarrow>
      snd (clear w p) = Inr None
      \<and> filter is_error_log (fst (clear w p))
          = [Log (m @ '', RabbitMQ failed to clear policy '' @ name p) ERROR]
      \<and> filter is_status (fst (clear w p))
          = [StatusSet ''blocked'' (''RabbitMQ failed to clear policy '' @ name p)])"
  by (simp add: clear_def clear_argv_def run_def Let_def split: sum.splits exn.splits)

theorem clear_issues_command_witness:
  "filter is_exec (fst (clear (test_env (Inr ''ok'') 1) ttl_policy))
     = [CheckOutput [''rabbitmqctl'', ''clear_policy'', ''-p'', ''openstack'', ''TTL'']]
   \<and> snd (clear (test_env (Inr ''ok'') 1) ttl_policy) = Inr (Some ''ok'')
   \<and> filter is_status (fst (clear (test_env (Inr ''ok'') 1) ttl_policy)) = []
   \<and> snd (clear (test_env (Inl command_failure) 1) ttl_policy) = Inr None
   \<and> filter is_status (fst (clear (test_env (Inl command_failure) 1) ttl_policy))
       = [StatusSet ''blocked'' ''RabbitMQ failed to clear policy TTL'']"
proof -
  have fields: "vhost ttl_policy = ''openstack''" "name ttl_policy = ''TTL''"
    by (simp_all add: ttl_policy_def)
  have ok: "check_output (test_env (Inr ''ok'') 1)
        [''rabbitmqctl'', ''clear_policy'', ''-p'', ''openstack'', ''TTL''] = Inr ''ok''
      \<and> decode (test_env (Inr ''ok'') 1) ''ok'' = Inr ''ok''"
    by (simp add: test_env_def)
  have fails: "check_output (test_env (Inl command_failure) 1)
        [''rabbitmqctl'', ''clear_policy'', ''-p'', ''openstack'', ''TTL'']
      = Inl (CalledProcessError ''Command 'cmd' returned non-zero exit status 1.'')"
    by (simp add: test_env_def command_failure_def)
  from ok fails
    clear_issues_command [where w = "test_env (Inr ''ok'') 1" and p = ttl_policy
      and out = "''ok''" and result = "''ok''"]
    clear_issues_command [where w = "test_env (Inl command_failure) 1" and p = ttl_policy
      and m = "''Command 'cmd' returned non-zero exit status 1.''"]
  show ?thesis
    by (simp add: fields)
qed

text \<open>
  C10. A \<^verbatim>\<open>BasePolicy\<close> constructed with \<^verbatim>\<open>pattern=None\<close> and \<^verbatim>\<open>definition=None\<close> stores
  the four-character string \<^verbatim>\<open>None\<close> in both attributes, and \<^verbatim>\<open>set()\<close> of that object
  passes \<^verbatim>\<open>None\<close> in the pattern and definition positions of the command.
\<close>

theorem BasePolicy_defaults_stored_as_None:
  "py_str a \<in> {''queues'', ''exchanges'', ''all''} \<Longrightarrow>
   \<exists>p. BasePolicy_init vh n PNone PNone a pr ty = Inr p
     \<and> pattern p = ''None'' \<and> kind p = BasePolicy ''None'' \<and> definition_of p = ''None''
     \<and> (\<forall>w. filter is_exec (fst (policy_set w p))
            = [CheckOutput [''rabbitmqctl'', ''set_policy'', ''-p'', py_str vh, py_str n,
                 ''None'', ''None'', ''--apply-to'', py_str a, ''--priority'', py_str pr]])"
  by (simp add: BasePolicy_init_cases definition_of_def policy_set_trace BasePolicy_set_execs
      check_def set_argv_def)

theorem BasePolicy_defaults_stored_as_None_witness:
  "\<exists>p. BasePolicy_init (PStr ''/'') (PStr ''HA'') PNone PNone (PStr ''queues'') (PStr ''1'')
          (PStr ''generic'') = Inr p
     \<and> pattern p = ''None'' \<and> kind p = BasePolicy ''None'' \<and> definition_of p = ''None''
     \<and> (\<forall>w. filter is_exec (fst (policy_set w p))
            = [CheckOutput [''rabbitmqctl'', ''set_policy'', ''-p'', ''/'', ''HA'',
                 ''None'', ''None'', ''--apply-to'', ''queues'', ''--priority'', ''1'']])"
  using BasePolicy_defaults_stored_as_None [of "PStr ''queues''" "PStr ''/''" "PStr ''HA''"
      "PStr ''1''" "PStr ''generic''"]
  by simp

text \<open>
  C1. The claim is that \<^verbatim>\<open>set()\<close> of a \<^verbatim>\<open>TTLPolicy\<close> or an \<^verbatim>\<open>HAPolicy\<close> does what
  \<^verbatim>\<open>BasePolicy.set\<close> does on the same object and returns the same value. The overrides
  make the same calls, but on the objects of the tests, with a command that prints
  \<^verbatim>\<open>ok\<close>, \<^verbatim>\<open>BasePolicy.set\<close> returns \<^verbatim>\<open>ok\<close> and the override returns \<^verbatim>\<open>None\<close>.
\<close>

theorem subclass_set_drops_output:
  "snd (policy_set (test_env (Inr ''ok'') 1) ttl_policy) = Inr None
   \<and> snd (BasePolicy_set (test_env (Inr ''ok'') 1) ttl_policy) = Inr (Some ''ok'')
   \<and> fst (policy_set (test_env (Inr ''ok'') 1) ttl_policy)
       = fst (BasePolicy_set (test_env (Inr ''ok'') 1) ttl_policy)
   \<and> snd (policy_set (test_env (Inr ''ok'') 1) ha_policy) = Inr None
   \<and> snd (BasePolicy_set (test_env (Inr ''ok'') 1) ha_policy) = Inr (Some ''ok'')
   \<and> fst (policy_set (test_env (Inr ''ok'') 1) ha_policy)
       = fst (BasePolicy_set (test_env (Inr ''ok'') 1) ha_policy)"
proof -
  have t: "snd (check (test_env (Inr ''ok'') 1) ttl_policy)"
    and h: "snd (check (test_env (Inr ''ok'') 1) ha_policy)"
    by (simp_all add: check_def ttl_policy_def ha_policy_def test_env_def)
  have out: "\<And>argv. check_output (test_env (Inr ''ok'') 1) argv = Inr ''ok''"
    and dec: "decode (test_env (Inr ''ok'') 1) ''ok'' = Inr ''ok''"
    by (simp_all add: test_env_def)
  have kinds: "kind ttl_policy = TTLPolicy 3600000 True"
    "kind ha_policy = HAPolicy JNull ''all'' ''automatic''"
    by (simp_all add: ttl_policy_def ha_policy_def)
  show ?thesis
    by (simp add: policy_set_trace policy_set_result kinds
        BasePolicy_set_ok [OF t out dec] BasePolicy_set_ok [OF h out dec])
qed

text \<open>
  C2. The claim is that \<^verbatim>\<open>set()\<close> of every policy whose \<^verbatim>\<open>check()\<close> is true returns
  \<^verbatim>\<open>ok\<close> when the command prints \<^verbatim>\<open>ok\<close>, issues the \<^verbatim>\<open>set_policy\<close> command and never
  calls \<^verbatim>\<open>status_set\<close>. On \<^verbatim>\<open>HAPolicy("/", "HA", "foo")\<close>, with a version that passes the
  check, the command is issued and \<^verbatim>\<open>status_set\<close> is not called, but the value returned
  is \<^verbatim>\<open>None\<close>.
\<close>

theorem HAPolicy_set_returns_None_on_success:
  \<open>policy_set (test_env (Inr ''ok'') 1) ha_policy =
     ([CmpPkgrevno ''rabbitmq-server'' ''3.0.0'',
       Log (''Setting policy HAPolicy to vhost: '/' with name: '' @ quoted ''HA'') DEBUG,
       CheckOutput [''rabbitmqctl'', ''set_policy'', ''-p'', ''/'', ''HA'', ''foo'',
         ''{"ha-mode": "all", "ha-sync-mode": "automatic"}'', ''--apply-to'', ''queues'',
         ''--priority'', ''1''],
       Log ''ok'' INFO],
      Inr None)\<close>
proof -
  have h: "snd (check (test_env (Inr ''ok'') 1) ha_policy)"
    by (simp add: check_def ha_policy_def test_env_def)
  have out: "\<And>argv. check_output (test_env (Inr ''ok'') 1) argv = Inr ''ok''"
    and dec: "decode (test_env (Inr ''ok'') 1) ''ok'' = Inr ''ok''"
    by (simp_all add: test_env_def)
  have c: "fst (check (test_env (Inr ''ok'') 1) ha_policy)
      = [CmpPkgrevno ''rabbitmq-server'' ''3.0.0'']"
    by (simp add: check_def ha_policy_def test_env_def)
  have fields: "vhost ha_policy = ''/''" "name ha_policy = ''HA''" "pattern ha_policy = ''foo''"
    "apply_to ha_policy = ''queues''" "priority ha_policy = ''1''"
    "kind ha_policy = HAPolicy JNull ''all'' ''automatic''"
    by (simp_all add: ha_policy_def)
  show ?thesis
    by (simp add: policy_set_def HAPolicy_set_def BasePolicy_set_ok [OF h out dec] c fields
        set_argv_def ha_policy_definition quoted_def)
qed

end
